theory Spec2Isabelle
  imports Complex_Main
begin

section \<open>Numbers, errors and arrays\<close>

text \<open>
  The scattering module of amset (\<^verbatim>\<open>src/amset/scattering/basic.py\<close>) computes with
  Python floats and numpy float64 arrays. A value is modelled as a real number or one of
  the IEEE special values; on finite values the arithmetic is exact (rounding, overflow
  and the sign of zero are not modelled), on the special values it follows IEEE 754 as
  numpy does: nothing raises, a division by zero yields an infinity or NaN.
\<close>

datatype npfloat = Fin real | PInf | NInf | NaN

datatype error = KeyError string | IndexError | ZeroDivisionError | ValueError

datatype spin = Up | Down

definition inf_of_sign :: "real \<Rightarrow> npfloat" where
  "inf_of_sign s = (if s = 0 then NaN else if 0 < s then PInf else NInf)"

fun isnan :: "npfloat \<Rightarrow> bool" where
  "isnan NaN = True"
| "isnan _ = False"

fun fneg :: "npfloat \<Rightarrow> npfloat" where
  "fneg (Fin a) = Fin (- a)"
| "fneg PInf = NInf"
| "fneg NInf = PInf"
| "fneg NaN = NaN"

fun fadd :: "npfloat \<Rightarrow> npfloat \<Rightarrow> npfloat" where
  "fadd (Fin a) (Fin b) = Fin (a + b)"
| "fadd NaN _ = NaN"
| "fadd _ NaN = NaN"
| "fadd PInf NInf = NaN"
| "fadd NInf PInf = NaN"
| "fadd PInf _ = PInf"
| "fadd NInf _ = NInf"
| "fadd (Fin a) x = x"

definition fsub :: "npfloat \<Rightarrow> npfloat \<Rightarrow> npfloat" where
  "fsub x y = fadd x (fneg y)"

fun fmul :: "npfloat \<Rightarrow> npfloat \<Rightarrow> npfloat" where
  "fmul (Fin a) (Fin b) = Fin (a * b)"
| "fmul NaN _ = NaN"
| "fmul _ NaN = NaN"
| "fmul (Fin a) PInf = inf_of_sign a"
| "fmul (Fin a) NInf = inf_of_sign (- a)"
| "fmul PInf (Fin b) = inf_of_sign b"
| "fmul NInf (Fin b) = inf_of_sign (- b)"
| "fmul PInf PInf = PInf"
| "fmul PInf NInf = NInf"
| "fmul NInf PInf = NInf"
| "fmul NInf NInf = PInf"

fun fdiv :: "npfloat \<Rightarrow> npfloat \<Rightarrow> npfloat" where
  "fdiv (Fin a) (Fin b) = (if b = 0 then inf_of_sign a else Fin (a / b))"
| "fdiv NaN _ = NaN"
| "fdiv _ NaN = NaN"
| "fdiv (Fin a) _ = Fin 0"
| "fdiv PInf (Fin b) = (if 0 \<le> b then PInf else NInf)"
| "fdiv NInf (Fin b) = (if 0 \<le> b then NInf else PInf)"
| "fdiv _ _ = NaN"

text \<open>\<^verbatim>\<open>x ** n\<close> for a literal exponent \<open>n\<close> (2 and 4 in the source).\<close>

primrec fpow :: "npfloat \<Rightarrow> nat \<Rightarrow> npfloat" where
  "fpow x 0 = Fin 1"
| "fpow x (Suc n) = fmul x (fpow x n)"

fun fabs :: "npfloat \<Rightarrow> npfloat" where
  "fabs (Fin a) = Fin \<bar>a\<bar>"
| "fabs NaN = NaN"
| "fabs _ = PInf"

fun fsqrt :: "npfloat \<Rightarrow> npfloat" where
  "fsqrt (Fin a) = (if a < 0 then NaN else Fin (sqrt a))"
| "fsqrt PInf = PInf"
| "fsqrt _ = NaN"

fun flog :: "npfloat \<Rightarrow> npfloat" where
  "flog (Fin a) = (if a < 0 then NaN else if a = 0 then NInf else Fin (ln a))"
| "flog PInf = PInf"
| "flog _ = NaN"

text \<open>\<^verbatim>\<open>np.power(x, 1 / 3)\<close>.\<close>

fun fcbrt :: "npfloat \<Rightarrow> npfloat" where
  "fcbrt (Fin a) = (if a < 0 then NaN else Fin (a powr (1 / 3)))"
| "fcbrt NaN = NaN"
| "fcbrt _ = PInf"

text \<open>The comparison \<^verbatim>\<open>x < y\<close>: false as soon as one side is NaN.\<close>

fun fless :: "npfloat \<Rightarrow> npfloat \<Rightarrow> bool" where
  "fless (Fin a) (Fin b) = (a < b)"
| "fless NaN _ = False"
| "fless _ NaN = False"
| "fless NInf NInf = False"
| "fless NInf _ = True"
| "fless _ PInf = True"
| "fless _ _ = False"

text \<open>\<open>0 \<le> x\<close>, as a test would assert it: false on NaN.\<close>

fun nonneg :: "npfloat \<Rightarrow> bool" where
  "nonneg (Fin a) = (0 \<le> a)"
| "nonneg PInf = True"
| "nonneg _ = False"

fun finite_val :: "npfloat \<Rightarrow> bool" where
  "finite_val (Fin a) = True"
| "finite_val _ = False"

text \<open>The two arguments of \<^verbatim>\<open>np.max\<close> and \<^verbatim>\<open>np.min\<close> at one step of the reduction:
  a NaN propagates.\<close>

definition fmax :: "npfloat \<Rightarrow> npfloat \<Rightarrow> npfloat" where
  "fmax x y = (if isnan x \<or> isnan y then NaN else if fless x y then y else x)"

definition fmin :: "npfloat \<Rightarrow> npfloat \<Rightarrow> npfloat" where
  "fmin x y = (if isnan x \<or> isnan y then NaN else if fless y x then y else x)"

text \<open>\<^verbatim>\<open>np.max\<close> and \<^verbatim>\<open>np.min\<close> of all the elements: a zero-size array raises ValueError.\<close>

fun np_max :: "npfloat list \<Rightarrow> error + npfloat" where
  "np_max [] = Inl ValueError"
| "np_max (x # xs) = Inr (foldl fmax x xs)"

fun np_min :: "npfloat list \<Rightarrow> error + npfloat" where
  "np_min [] = Inl ValueError"
| "np_min (x # xs) = Inr (foldl fmin x xs)"

text \<open>Python's \<^verbatim>\<open>a / b\<close> on two floats raises on a zero divisor, unlike numpy's.\<close>

definition py_div :: "npfloat \<Rightarrow> npfloat \<Rightarrow> error + npfloat" where
  "py_div a b = (if b = Fin 0 then Inl ZeroDivisionError else Inr (fdiv a b))"

subsection \<open>Arrays\<close>

text \<open>
  A numpy array is its shape and its elements by index. The rank is part of the type:
  the dataset's fields have the ranks the data model gives them; the extents are data.
  One-dimensional arrays are lists.
\<close>

record 'a arr2 =
  shape2 :: "nat \<times> nat"
  at2 :: "nat \<Rightarrow> nat \<Rightarrow> 'a"

record 'a arr3 =
  shape3 :: "nat \<times> nat \<times> nat"
  at3 :: "nat \<Rightarrow> nat \<Rightarrow> nat \<Rightarrow> 'a"

record 'a arr4 =
  shape4 :: "nat \<times> nat \<times> nat \<times> nat"
  at4 :: "nat \<Rightarrow> nat \<Rightarrow> nat \<Rightarrow> nat \<Rightarrow> 'a"

definition map2_arr :: "('a \<Rightarrow> 'b) \<Rightarrow> 'a arr2 \<Rightarrow> 'b arr2" where
  "map2_arr f a = \<lparr>shape2 = shape2 a, at2 = (\<lambda>i j. f (at2 a i j))\<rparr>"

definition map3_arr :: "('a \<Rightarrow> 'b) \<Rightarrow> 'a arr3 \<Rightarrow> 'b arr3" where
  "map3_arr f a = \<lparr>shape3 = shape3 a, at3 = (\<lambda>i j k. f (at3 a i j k))\<rparr>"

definition map4_arr :: "('a \<Rightarrow> 'b) \<Rightarrow> 'a arr4 \<Rightarrow> 'b arr4" where
  "map4_arr f a = \<lparr>shape4 = shape4 a, at4 = (\<lambda>i j k l. f (at4 a i j k l))\<rparr>"

text \<open>An integer index into an axis of extent \<open>n\<close>: negative indices count from the end,
  anything outside \<open>[-n, n)\<close> is an IndexError.\<close>

definition norm_index :: "nat \<Rightarrow> int \<Rightarrow> nat option" where
  "norm_index n i =
     (if 0 \<le> i \<and> i < int n then Some (nat i)
      else if - int n \<le> i \<and> i < 0 then Some (nat (i + int n))
      else None)"

definition indices_ok :: "nat \<Rightarrow> int list \<Rightarrow> bool" where
  "indices_ok n idx = list_all (\<lambda>i. norm_index n i \<noteq> None) idx"

text \<open>\<^verbatim>\<open>a[:, idx]\<close> and \<^verbatim>\<open>a[..., idx]\<close>: the last axis indexed by an integer array.\<close>

definition take_last2 :: "'a arr2 \<Rightarrow> int list \<Rightarrow> error + 'a arr2" where
  "take_last2 a idx =
     (case shape2 a of (s0, s1) \<Rightarrow>
        if indices_ok s1 idx
        then Inr \<lparr>shape2 = (s0, length idx),
                  at2 = (\<lambda>b k. at2 a b (the (norm_index s1 (idx ! k))))\<rparr>
        else Inl IndexError)"

definition take_last4 :: "'a arr4 \<Rightarrow> int list \<Rightarrow> error + 'a arr4" where
  "take_last4 a idx =
     (case shape4 a of (s0, s1, s2, s3) \<Rightarrow>
        if indices_ok s3 idx
        then Inr \<lparr>shape4 = (s0, s1, s2, length idx),
                  at4 = (\<lambda>n t b k. at4 a n t b (the (norm_index s3 (idx ! k))))\<rparr>
        else Inl IndexError)"

text \<open>The concatenation \<^verbatim>\<open>a.shape + b.shape\<close> of two shape tuples.\<close>

definition shape_concat :: "nat \<times> nat \<Rightarrow> nat \<times> nat \<Rightarrow> nat \<times> nat \<times> nat \<times> nat" where
  "shape_concat sa sb = (fst sa, snd sa, fst sb, snd sb)"

text \<open>\<^verbatim>\<open>np.full(shape, value)\<close>.\<close>

definition np_full :: "nat \<times> nat \<times> nat \<times> nat \<Rightarrow> 'a \<Rightarrow> 'a arr4" where
  "np_full sh v = \<lparr>shape4 = sh, at4 = (\<lambda>n t b k. v)\<rparr>"

text \<open>A loop \<^verbatim>\<open>for spin in spins: d[spin] = f(spin)\<close> (or the dictionary comprehension)
  that fills a dictionary keyed by spin: the first failure ends it.\<close>

fun for_spins :: "(spin \<Rightarrow> error + 'a) \<Rightarrow> spin list \<Rightarrow> (spin \<rightharpoonup> 'a) \<Rightarrow> error + (spin \<rightharpoonup> 'a)" where
  "for_spins f [] acc = Inr acc"
| "for_spins f (s # ss) acc =
     (case f s of Inl e \<Rightarrow> Inl e | Inr v \<Rightarrow> for_spins f ss (acc(s \<mapsto> v)))"

section \<open>The dataset and the mechanisms\<close>

text \<open>
  \<^verbatim>\<open>AmsetData\<close>, read only. Its per-spin dictionaries hold an entry for every spin, so
  they are functions of the spin.
\<close>

record amset_data =
  spins :: "spin list"
  energies :: "spin \<Rightarrow> npfloat arr2"
  velocities_product :: "spin \<Rightarrow> npfloat arr4"
  effective_mass :: "spin \<Rightarrow> npfloat arr4"
  c_factor :: "spin \<Rightarrow> npfloat arr2"
  fermi_levels :: "npfloat arr2"
  doping :: "npfloat list"
  temperatures :: "npfloat list"
  electron_conc :: "npfloat arr2"
  hole_conc :: "npfloat arr2"
  ir_kpoints_idx :: "int list"
  ir_to_full_kpoint_mapping :: "int list"
  is_metal :: bool
  vb_idx :: "spin \<Rightarrow> int"
  intrinsic_fermi_level :: npfloat

text \<open>The unit constants the module imports (\<^verbatim>\<open>BoltzTraP2.units.Second\<close>,
  \<^verbatim>\<open>amset.constants.nm_to_bohr\<close>) are parameters of the model.\<close>

record constants =
  Second :: npfloat
  nm_to_bohr :: npfloat

text \<open>An instance of \<^verbatim>\<open>AbstractBasicScattering\<close>, and of a subclass with its
  \<^verbatim>\<open>_rates\<close>.\<close>

record abstract_basic_scattering =
  self_properties :: "string \<rightharpoonup> npfloat"
  self_doping :: "npfloat list"
  self_temperatures :: "npfloat list"
  self_nbands :: "spin \<rightharpoonup> nat"
  self_spins :: "spin list"

record basic_scattering = abstract_basic_scattering +
  rates :: "spin \<rightharpoonup> npfloat arr4"

text \<open>\<^verbatim>\<open>{p: materials_properties[p] for p in self.required_properties}\<close>: a missing key
  raises KeyError at the first declared key that is absent.\<close>

fun extract_properties ::
  "(string \<rightharpoonup> npfloat) \<Rightarrow> string list \<Rightarrow> (string \<rightharpoonup> npfloat) \<Rightarrow> error + (string \<rightharpoonup> npfloat)" where
  "extract_properties mp [] acc = Inr acc"
| "extract_properties mp (p # ps) acc =
     (case mp p of
        None \<Rightarrow> Inl (KeyError p)
      | Some v \<Rightarrow> extract_properties mp ps (acc(p \<mapsto> v)))"

definition AbstractBasicScattering_init ::
  "string list \<Rightarrow> (string \<rightharpoonup> npfloat) \<Rightarrow> amset_data \<Rightarrow> error + abstract_basic_scattering" where
  "AbstractBasicScattering_init required_properties materials_properties d =
     (case extract_properties materials_properties required_properties Map.empty of
        Inl e \<Rightarrow> Inl e
      | Inr props \<Rightarrow>
          Inr \<lparr>self_properties = props,
               self_doping = doping d,
               self_temperatures = temperatures d,
               self_nbands = foldl (\<lambda>m s. m(s \<mapsto> fst (shape2 (energies d s)))) Map.empty (spins d),
               self_spins = spins d\<rparr>)"

text \<open>\<^verbatim>\<open>self.properties[key]\<close>.\<close>

definition prop_lookup :: "(string \<rightharpoonup> npfloat) \<Rightarrow> string \<Rightarrow> error + npfloat" where
  "prop_lookup props key = (case props key of None \<Rightarrow> Inl (KeyError key) | Some v \<Rightarrow> Inr v)"

subsection \<open>ConstantRelaxationTime\<close>

definition CRT_required_properties :: "string list" where
  "CRT_required_properties = [''constant_relaxation_time'']"

definition ConstantRelaxationTime_init ::
  "(string \<rightharpoonup> npfloat) \<Rightarrow> amset_data \<Rightarrow> error + basic_scattering" where
  "ConstantRelaxationTime_init materials_properties d =
     (case AbstractBasicScattering_init CRT_required_properties materials_properties d of
        Inl e \<Rightarrow> Inl e
      | Inr self \<Rightarrow>
         (case prop_lookup (self_properties self) ''constant_relaxation_time'' of
            Inl e \<Rightarrow> Inl e
          | Inr tau \<Rightarrow>
             (case py_div (Fin 1) tau of
                Inl e \<Rightarrow> Inl e
              | Inr rate \<Rightarrow>
                 (case for_spins
                         (\<lambda>s. Inr (shape_concat (shape2 (fermi_levels d)) (shape2 (energies d s))))
                         (self_spins self) Map.empty of
                    Inl e \<Rightarrow> Inl e
                  | Inr shape \<Rightarrow>
                     (case for_spins
                             (\<lambda>s. case shape s of None \<Rightarrow> Inl (KeyError ''spin'')
                                   | Some sh \<Rightarrow> Inr (np_full sh rate))
                             (self_spins self) Map.empty of
                        Inl e \<Rightarrow> Inl e
                      | Inr r \<Rightarrow> Inr (abstract_basic_scattering.extend self \<lparr>rates = r\<rparr>))))))"

subsection \<open>MeanFreePathScattering\<close>

text \<open>\<^verbatim>\<open>np.diagonal(a, axis1=1, axis2=2)\<close>: the diagonal goes to a new last axis.\<close>

definition np_diagonal :: "'a arr4 \<Rightarrow> 'a arr3" where
  "np_diagonal a =
     (case shape4 a of (s0, s1, s2, s3) \<Rightarrow>
        \<lparr>shape3 = (s0, s3, min s1 s2), at3 = (\<lambda>b k i. at4 a b i i k)\<rparr>)"

text \<open>\<^verbatim>\<open>np.linalg.norm(v, axis=2)\<close>: the square root of the sum of the squares along the
  last axis.\<close>

definition np_sum :: "npfloat list \<Rightarrow> npfloat" where
  "np_sum xs = foldl fadd (Fin 0) xs"

definition norm_axis2 :: "npfloat arr3 \<Rightarrow> npfloat arr2" where
  "norm_axis2 v =
     (case shape3 v of (s0, s1, s2) \<Rightarrow>
        \<lparr>shape2 = (s0, s1),
         at2 = (\<lambda>b k. fsqrt (np_sum (map (\<lambda>i. fmul (at3 v b k i) (at3 v b k i)) [0..<s2])))\<rparr>)"

text \<open>\<^verbatim>\<open>v[v < 0.005] = 0.005\<close> at one element.\<close>

definition clamp_velocity :: "npfloat \<Rightarrow> npfloat" where
  "clamp_velocity v = (if fless v (Fin (5 / 1000)) then Fin (5 / 1000) else v)"

text \<open>\<^verbatim>\<open>np.tile(a, (nd, nt, 1, 1))\<close> of a two-dimensional array.\<close>

definition np_tile :: "nat \<Rightarrow> nat \<Rightarrow> 'a arr2 \<Rightarrow> 'a arr4" where
  "np_tile nd nt a =
     (case shape2 a of (s0, s1) \<Rightarrow>
        \<lparr>shape4 = (nd, nt, s0, s1), at4 = (\<lambda>n t b k. at2 a b k)\<rparr>)"

definition MFP_required_properties :: "string list" where
  "MFP_required_properties = [''mean_free_path'']"

text \<open>The body of the loop over the spins up to the variable \<^verbatim>\<open>rates\<close> (line 75), on the
  irreducible k-points.\<close>

definition MFP_ir_rates :: "constants \<Rightarrow> npfloat \<Rightarrow> amset_data \<Rightarrow> spin \<Rightarrow> error + npfloat arr4" where
  "MFP_ir_rates C mfp d spin =
     (case take_last4 (velocities_product d spin) (ir_kpoints_idx d) of
        Inl e \<Rightarrow> Inl e
      | Inr vvelocities \<Rightarrow>
          let v = map3_arr fsqrt (np_diagonal vvelocities);
              v = norm_axis2 v;
              v = map2_arr clamp_velocity v;
              velocities = np_tile (length (doping d)) (length (temperatures d)) v
          in Inr (map4_arr (\<lambda>x. fdiv (fmul x (Second C)) mfp) velocities))"

definition MeanFreePathScattering_init ::
  "constants \<Rightarrow> (string \<rightharpoonup> npfloat) \<Rightarrow> amset_data \<Rightarrow> error + basic_scattering" where
  "MeanFreePathScattering_init C materials_properties d =
     (case AbstractBasicScattering_init MFP_required_properties materials_properties d of
        Inl e \<Rightarrow> Inl e
      | Inr self \<Rightarrow>
         (case prop_lookup (self_properties self) ''mean_free_path'' of
            Inl e \<Rightarrow> Inl e
          | Inr l \<Rightarrow>
             let mfp = fmul l (nm_to_bohr C) in
             (case for_spins
                     (\<lambda>spin. case MFP_ir_rates C mfp d spin of
                                Inl e \<Rightarrow> Inl e
                              | Inr r \<Rightarrow> take_last4 r (ir_to_full_kpoint_mapping d))
                     (self_spins self) Map.empty of
                Inl e \<Rightarrow> Inl e
              | Inr r \<Rightarrow> Inr (abstract_basic_scattering.extend self \<lparr>rates = r\<rparr>))))"

subsection \<open>The helpers\<close>

text \<open>The bound \<open>m\<close> of a slice \<^verbatim>\<open>a[:m]\<close> or \<^verbatim>\<open>a[m:]\<close> on an axis of extent \<open>n\<close>: negative
  bounds count from the end, and the bound is clipped to the axis.\<close>

definition slice_bound :: "nat \<Rightarrow> int \<Rightarrow> nat" where
  "slice_bound n m = (if m < 0 then nat (max 0 (m + int n)) else min n (nat m))"

text \<open>All the elements of the rows \<open>lo \<le> b < hi\<close>.\<close>

definition rows_flat :: "'a arr2 \<Rightarrow> nat \<Rightarrow> nat \<Rightarrow> 'a list" where
  "rows_flat a lo hi = concat (map (\<lambda>b. map (\<lambda>k. at2 a b k) [0..<snd (shape2 a)]) [lo..<hi])"

text \<open>A list comprehension whose elements may raise.\<close>

fun map_err :: "('a \<Rightarrow> error + 'b) \<Rightarrow> 'a list \<Rightarrow> error + 'b list" where
  "map_err f [] = Inr []"
| "map_err f (x # xs) =
     (case f x of
        Inl e \<Rightarrow> Inl e
      | Inr y \<Rightarrow> (case map_err f xs of Inl e \<Rightarrow> Inl e | Inr ys \<Rightarrow> Inr (y # ys)))"

text \<open>\<^verbatim>\<open>np.max([np.max(amset_data.energies[s][: vb_idx[s] + 1]) for s in spins])\<close> and
  \<^verbatim>\<open>np.min([np.min(amset_data.energies[s][vb_idx[s] + 1 :]) for s in spins])\<close>.\<close>

definition vbm_e :: "amset_data \<Rightarrow> error + npfloat" where
  "vbm_e d =
     (case map_err (\<lambda>s. np_max (rows_flat (energies d s) 0
                              (slice_bound (fst (shape2 (energies d s))) (vb_idx d s + 1))))
             (spins d) of
        Inl e \<Rightarrow> Inl e
      | Inr ms \<Rightarrow> np_max ms)"

definition cbm_e :: "amset_data \<Rightarrow> error + npfloat" where
  "cbm_e d =
     (case map_err (\<lambda>s. np_min (rows_flat (energies d s)
                              (slice_bound (fst (shape2 (energies d s))) (vb_idx d s + 1))
                              (fst (shape2 (energies d s)))))
             (spins d) of
        Inl e \<Rightarrow> Inl e
      | Inr ms \<Rightarrow> np_min ms)"

text \<open>An assignment \<^verbatim>\<open>a[rows] = f(a[rows])\<close> to the rows a slice selects.\<close>

definition update_rows :: "(nat \<Rightarrow> bool) \<Rightarrow> ('a \<Rightarrow> 'a) \<Rightarrow> 'a arr2 \<Rightarrow> 'a arr2" where
  "update_rows sel f a =
     \<lparr>shape2 = shape2 a, at2 = (\<lambda>b k. if sel b then f (at2 a b k) else at2 a b k)\<rparr>"

text \<open>\<^verbatim>\<open>for n, t in np.ndindex(fermi_shape): out[n, t] = a\<close> on an array \<open>out\<close> of shape
  \<open>fermi_shape + a.shape\<close>: every slice of \<open>out\<close> is written.\<close>

definition fill_slices :: "nat \<times> nat \<Rightarrow> 'a arr2 \<Rightarrow> 'a arr4" where
  "fill_slices fermi_shape a =
     \<lparr>shape4 = shape_concat fermi_shape (shape2 a), at4 = (\<lambda>n t b k. at2 a b k)\<rparr>"

definition get_normalized_energies :: "amset_data \<Rightarrow> error + (spin \<rightharpoonup> npfloat arr4)" where
  "get_normalized_energies d =
     (let fermi_shape = shape2 (fermi_levels d);
          ir_idx = ir_kpoints_idx d
      in if is_metal d then
           for_spins
             (\<lambda>spin. case take_last2 (energies d spin) ir_idx of
                        Inl e \<Rightarrow> Inl e
                      | Inr spin_energies \<Rightarrow>
                          Inr (fill_slices fermi_shape
                                 (map2_arr (\<lambda>x. fabs (fsub x (intrinsic_fermi_level d))) spin_energies)))
             (spins d) Map.empty
         else
           (case vbm_e d of
              Inl e \<Rightarrow> Inl e
            | Inr vbm \<Rightarrow>
               (case cbm_e d of
                  Inl e \<Rightarrow> Inl e
                | Inr cbm \<Rightarrow>
                    for_spins
                      (\<lambda>spin. case take_last2 (energies d spin) ir_idx of
                                 Inl e \<Rightarrow> Inl e
                               | Inr spin_energies \<Rightarrow>
                                   let m = slice_bound (fst (shape2 spin_energies)) (vb_idx d spin + 1);
                                       spin_energies = update_rows (\<lambda>b. b < m) (\<lambda>x. fsub vbm x) spin_energies;
                                       spin_energies = update_rows (\<lambda>b. m \<le> b) (\<lambda>x. fsub x cbm) spin_energies
                                   in Inr (fill_slices fermi_shape spin_energies))
                      (spins d) Map.empty)))"

text \<open>\<^verbatim>\<open>np.product(a, axis=2)\<close>.\<close>

definition np_product :: "npfloat list \<Rightarrow> npfloat" where
  "np_product xs = foldl fmul (Fin 1) xs"

definition product_axis2 :: "npfloat arr3 \<Rightarrow> npfloat arr2" where
  "product_axis2 v =
     (case shape3 v of (s0, s1, s2) \<Rightarrow>
        \<lparr>shape2 = (s0, s1), at2 = (\<lambda>b k. np_product (map (\<lambda>i. at3 v b k i) [0..<s2]))\<rparr>)"

definition get_dos_effective_masses :: "amset_data \<Rightarrow> error + (spin \<rightharpoonup> npfloat arr2)" where
  "get_dos_effective_masses d =
     for_spins
       (\<lambda>spin. case take_last4 (effective_mass d spin) (ir_kpoints_idx d) of
                  Inl e \<Rightarrow> Inl e
                | Inr spin_masses \<Rightarrow>
                    let masses_eig = np_diagonal spin_masses;
                        masses_abs = map3_arr fabs masses_eig
                    in Inr (map2_arr fcbrt (product_axis2 masses_abs)))
       (spins d) Map.empty"

subsection \<open>BrooksHerringScattering\<close>

text \<open>Elementwise operations of two arrays broadcast the operands: two extents agree when
  they are equal or one of them is 1, and anything else raises ValueError. The operands
  are results themselves, evaluated left to right.\<close>

definition bdim :: "nat \<Rightarrow> nat \<Rightarrow> nat option" where
  "bdim m n = (if m = n then Some m else if m = 1 then Some n else if n = 1 then Some m else None)"

definition bshape4 :: "nat \<times> nat \<times> nat \<times> nat \<Rightarrow> nat \<times> nat \<times> nat \<times> nat \<Rightarrow> (nat \<times> nat \<times> nat \<times> nat) option" where
  "bshape4 sa sb =
     (case (sa, sb) of ((a0, a1, a2, a3), (b0, b1, b2, b3)) \<Rightarrow>
        (case (bdim a0 b0, bdim a1 b1, bdim a2 b2, bdim a3 b3) of
           (Some c0, Some c1, Some c2, Some c3) \<Rightarrow> Some (c0, c1, c2, c3)
         | _ \<Rightarrow> None))"

definition bidx :: "nat \<Rightarrow> nat \<Rightarrow> nat" where
  "bidx extent i = (if extent = 1 then 0 else i)"

definition bat4 :: "'a arr4 \<Rightarrow> nat \<Rightarrow> nat \<Rightarrow> nat \<Rightarrow> nat \<Rightarrow> 'a" where
  "bat4 a n t b k =
     (case shape4 a of (a0, a1, a2, a3) \<Rightarrow> at4 a (bidx a0 n) (bidx a1 t) (bidx a2 b) (bidx a3 k))"

definition ew2 ::
  "(npfloat \<Rightarrow> npfloat \<Rightarrow> npfloat) \<Rightarrow> error + npfloat arr4 \<Rightarrow> error + npfloat arr4 \<Rightarrow> error + npfloat arr4" where
  "ew2 f x y =
     (case x of
        Inl e \<Rightarrow> Inl e
      | Inr a \<Rightarrow>
         (case y of
            Inl e \<Rightarrow> Inl e
          | Inr b \<Rightarrow>
             (case bshape4 (shape4 a) (shape4 b) of
                None \<Rightarrow> Inl ValueError
              | Some sh \<Rightarrow>
                  Inr \<lparr>shape4 = sh, at4 = (\<lambda>n t b' k. f (bat4 a n t b' k) (bat4 b n t b' k))\<rparr>)))"

text \<open>An operation with a scalar, or a function of one array.\<close>

definition ew1 :: "(npfloat \<Rightarrow> npfloat) \<Rightarrow> error + npfloat arr4 \<Rightarrow> error + npfloat arr4" where
  "ew1 f x = (case x of Inl e \<Rightarrow> Inl e | Inr a \<Rightarrow> Inr (map4_arr f a))"

text \<open>\<^verbatim>\<open>a[..., None, None]\<close> and \<^verbatim>\<open>a[:, :, None, None]\<close>.\<close>

definition expand_dims :: "'a arr2 \<Rightarrow> 'a arr4" where
  "expand_dims a =
     (case shape2 a of (s0, s1) \<Rightarrow> \<lparr>shape4 = (s0, s1, 1, 1), at4 = (\<lambda>n t b k. at2 a n t)\<rparr>)"

definition np_zeros :: "nat \<times> nat \<Rightarrow> npfloat arr2" where
  "np_zeros sh = \<lparr>shape2 = sh, at2 = (\<lambda>n t. Fin 0)\<rparr>"

definition in_bounds2 :: "'a arr2 \<Rightarrow> nat \<Rightarrow> nat \<Rightarrow> bool" where
  "in_bounds2 a n t = (n < fst (shape2 a) \<and> t < snd (shape2 a))"

definition set2 :: "'a arr2 \<Rightarrow> nat \<Rightarrow> nat \<Rightarrow> 'a \<Rightarrow> 'a arr2" where
  "set2 a n t v = \<lparr>shape2 = shape2 a, at2 = (\<lambda>i j. if i = n \<and> j = t then v else at2 a i j)\<rparr>"

text \<open>\<^verbatim>\<open>np.ndindex(shape)\<close> of a two-dimensional shape.\<close>

definition ndindex :: "nat \<times> nat \<Rightarrow> (nat \<times> nat) list" where
  "ndindex sh = List.product [0..<fst sh] [0..<snd sh]"

definition BH_required_properties :: "string list" where
  "BH_required_properties = [''acceptor_charge'', ''donor_charge'', ''static_dielectric'']"

text \<open>The loop of lines 101 to 116 over the index pairs of the screening array. It reads
  \<^verbatim>\<open>electron_conc[n, t]\<close> and \<^verbatim>\<open>hole_conc[n, t]\<close>, writes \<^verbatim>\<open>impurity_concentration[n, t]\<close>
  and reads \<^verbatim>\<open>doping[n]\<close> and \<^verbatim>\<open>temperatures[t]\<close> for the log line; each raises
  IndexError out of range. The log text itself has no effect on the result.\<close>

fun impurity_loop ::
  "amset_data \<Rightarrow> (string \<rightharpoonup> npfloat) \<Rightarrow> (nat \<times> nat) list \<Rightarrow> npfloat arr2 \<Rightarrow> error + npfloat arr2" where
  "impurity_loop d props [] impurity_concentration = Inr impurity_concentration"
| "impurity_loop d props ((n, t) # rest) impurity_concentration =
     (if \<not> in_bounds2 (electron_conc d) n t then Inl IndexError
      else let n_conc = fabs (at2 (electron_conc d) n t) in
      if \<not> in_bounds2 (hole_conc d) n t then Inl IndexError
      else let p_conc = fabs (at2 (hole_conc d) n t) in
      (case prop_lookup props ''donor_charge'' of
         Inl e \<Rightarrow> Inl e
       | Inr donor_charge \<Rightarrow>
          (case prop_lookup props ''acceptor_charge'' of
             Inl e \<Rightarrow> Inl e
           | Inr acceptor_charge \<Rightarrow>
               if \<not> in_bounds2 impurity_concentration n t then Inl IndexError
               else if \<not> (n < length (doping d) \<and> t < length (temperatures d)) then Inl IndexError
               else impurity_loop d props rest
                      (set2 impurity_concentration n t
                         (fadd (fmul n_conc (fpow donor_charge 2))
                               (fmul p_conc (fpow acceptor_charge 2)))))))"

text \<open>The prefactor of lines 132 to 138.\<close>

definition BH_prefactor :: "constants \<Rightarrow> npfloat \<Rightarrow> npfloat arr2 \<Rightarrow> npfloat arr2" where
  "BH_prefactor C static_dielectric impurity_concentration =
     map2_arr (\<lambda>x. fdiv (fmul (fmul (fmul x (Fin 8)) (Fin pi)) (Second C)) (fpow static_dielectric 2))
       impurity_concentration"

text \<open>The velocity of lines 151 to 156.\<close>

definition BH_velocities :: "amset_data \<Rightarrow> spin \<Rightarrow> error + npfloat arr4" where
  "BH_velocities d spin =
     (case take_last4 (velocities_product d spin) (ir_kpoints_idx d) of
        Inl e \<Rightarrow> Inl e
      | Inr vvelocities \<Rightarrow>
          let v = map3_arr fsqrt (np_diagonal vvelocities);
              v = map2_arr (\<lambda>x. fdiv x (fsqrt (Fin 3))) (norm_axis2 v);
              v = map2_arr clamp_velocity v
          in Inr (np_tile (length (doping d)) (length (temperatures d)) v))"

text \<open>\<^verbatim>\<open>d_factor\<close>, \<^verbatim>\<open>b_factor\<close> and \<^verbatim>\<open>b\<close> of lines 162 to 177, as the source writes them.\<close>

definition BH_d_factor ::
  "error + npfloat arr4 \<Rightarrow> error + npfloat arr4 \<Rightarrow> error + npfloat arr4 \<Rightarrow> error + npfloat arr4" where
  "BH_d_factor screening c k_sq =
     ew2 fadd
       (ew2 fadd
          (Inr (np_full (1, 1, 1, 1) (Fin 1)))
          (ew2 fdiv (ew2 fmul (ew1 (fmul (Fin 2)) screening) (ew1 (\<lambda>x. fpow x 2) c)) k_sq))
       (ew2 fdiv
          (ew2 fmul (ew1 (fmul (Fin 3)) (ew1 (\<lambda>x. fpow x 2) screening)) (ew1 (\<lambda>x. fpow x 4) c))
          (ew1 (fmul (Fin 4)) (ew1 (\<lambda>x. fpow x 2) k_sq)))"

definition BH_b_factor ::
  "error + npfloat arr4 \<Rightarrow> error + npfloat arr4 \<Rightarrow> error + npfloat arr4 \<Rightarrow> error + npfloat arr4" where
  "BH_b_factor screening c k_sq =
     ew2 fadd
       (ew2 fadd
          (ew2 fdiv
             (ew2 fdiv (ew1 (fmul (Fin 4)) k_sq) screening)
             (ew1 (fadd (Fin 1)) (ew2 fdiv (ew1 (fmul (Fin 4)) k_sq) screening)))
          (ew2 fdiv
             (ew2 fmul (ew1 (fmul (Fin 8)) (ew1 (\<lambda>x. fpow x 2) c))
                       (ew2 fadd screening (ew1 (fmul (Fin 2)) k_sq)))
             (ew2 fadd screening (ew1 (fmul (Fin 4)) k_sq))))
       (ew2 fdiv
          (ew2 fmul (ew1 (\<lambda>x. fpow x 4) c)
             (ew2 fsub
                (ew2 fadd (ew1 (fmul (Fin 3)) (ew1 (\<lambda>x. fpow x 2) screening))
                          (ew2 fmul (ew1 (fmul (Fin 6)) screening) k_sq))
                (ew1 (fmul (Fin 8)) (ew1 (\<lambda>x. fpow x 2) k_sq))))
          (ew2 fmul (ew2 fadd screening (ew1 (fmul (Fin 4)) k_sq)) k_sq))"

definition BH_b :: "error + npfloat arr4 \<Rightarrow> error + npfloat arr4 \<Rightarrow> error + npfloat arr4" where
  "BH_b screening k_sq = ew2 fdiv (ew1 (fmul (Fin 4)) k_sq) screening"

text \<open>The rate of lines 144 to 183 for one spin, on the irreducible k-points and before the
  two assignments that zero entries.\<close>

definition BH_raw_rates ::
  "amset_data \<Rightarrow> npfloat arr2 \<Rightarrow> npfloat arr2 \<Rightarrow> npfloat arr2 \<Rightarrow> npfloat arr4 \<Rightarrow> spin
     \<Rightarrow> error + npfloat arr4" where
  "BH_raw_rates d inverse_screening_length_sq prefactor dos_effective_masses norm_energies spin =
     (let screening = Inr (expand_dims inverse_screening_length_sq);
          masses = np_tile (length (doping d)) (length (temperatures d)) dos_effective_masses;
          k_sq = ew2 fmul (ew1 (fmul (Fin 2)) (Inr masses)) (Inr norm_energies)
      in case k_sq of
           Inl e \<Rightarrow> Inl e
         | Inr _ \<Rightarrow>
            (case BH_velocities d spin of
               Inl e \<Rightarrow> Inl e
             | Inr velocities \<Rightarrow>
                (case take_last2 (c_factor d spin) (ir_kpoints_idx d) of
                   Inl e \<Rightarrow> Inl e
                 | Inr c0 \<Rightarrow>
                     let c = Inr (np_tile (length (doping d)) (length (temperatures d)) c0);
                         d_factor = BH_d_factor screening c k_sq;
                         b_factor = BH_b_factor screening c k_sq;
                         b = BH_b screening k_sq
                     in ew2 fdiv
                          (ew2 fmul (Inr (expand_dims prefactor))
                             (ew2 fsub (ew2 fmul d_factor (ew1 flog (ew1 (fadd (Fin 1)) b))) b_factor))
                          (ew2 fmul (Inr velocities) k_sq))))"

text \<open>\<^verbatim>\<open>a[mask] = 0\<close> with a boolean mask: the mask has the shape of the array, or the
  assignment raises IndexError.\<close>

definition mask_zero :: "npfloat arr4 \<Rightarrow> bool arr4 \<Rightarrow> error + npfloat arr4" where
  "mask_zero a msk =
     (if shape4 msk = shape4 a
      then Inr \<lparr>shape4 = shape4 a, at4 = (\<lambda>n t b k. if at4 msk n t b k then Fin 0 else at4 a n t b k)\<rparr>
      else Inl IndexError)"

text \<open>The rates of one spin on the irreducible k-points after lines 186 and 187.\<close>

definition BH_ir_rates ::
  "amset_data \<Rightarrow> npfloat arr2 \<Rightarrow> npfloat arr2 \<Rightarrow> (spin \<rightharpoonup> npfloat arr2) \<Rightarrow> (spin \<rightharpoonup> npfloat arr4) \<Rightarrow> spin
     \<Rightarrow> error + npfloat arr4" where
  "BH_ir_rates d inverse_screening_length_sq prefactor dos_effective_masses normalized_energies spin =
     (case dos_effective_masses spin of
        None \<Rightarrow> Inl (KeyError ''spin'')
      | Some masses \<Rightarrow>
         (case normalized_energies spin of
            None \<Rightarrow> Inl (KeyError ''spin'')
          | Some norm_energies \<Rightarrow>
             (case BH_raw_rates d inverse_screening_length_sq prefactor masses norm_energies spin of
                Inl e \<Rightarrow> Inl e
              | Inr r \<Rightarrow>
                 (case mask_zero r (map4_arr isnan r) of
                    Inl e \<Rightarrow> Inl e
                  | Inr r \<Rightarrow> mask_zero r (map4_arr (\<lambda>x. fless x (Fin (1 / 10 ^ 8))) norm_energies)))))"

text \<open>\<^verbatim>\<open>calculate_inverse_screening_length_sq\<close> is the screening collaborator, a parameter.\<close>

definition BrooksHerringScattering_init ::
  "constants \<Rightarrow> (amset_data \<Rightarrow> npfloat \<Rightarrow> npfloat arr2) \<Rightarrow> (string \<rightharpoonup> npfloat) \<Rightarrow> amset_data
     \<Rightarrow> error + basic_scattering" where
  "BrooksHerringScattering_init C calculate_inverse_screening_length_sq materials_properties d =
     (case AbstractBasicScattering_init BH_required_properties materials_properties d of
        Inl e \<Rightarrow> Inl e
      | Inr self \<Rightarrow>
     (case prop_lookup (self_properties self) ''static_dielectric'' of
        Inl e \<Rightarrow> Inl e
      | Inr static_dielectric \<Rightarrow>
     let inverse_screening_length_sq = calculate_inverse_screening_length_sq d static_dielectric in
     (case impurity_loop d (self_properties self) (ndindex (shape2 inverse_screening_length_sq))
             (np_zeros (shape2 (fermi_levels d))) of
        Inl e \<Rightarrow> Inl e
      | Inr impurity_concentration \<Rightarrow>
     (case get_normalized_energies d of
        Inl e \<Rightarrow> Inl e
      | Inr normalized_energies \<Rightarrow>
     (case get_dos_effective_masses d of
        Inl e \<Rightarrow> Inl e
      | Inr dos_effective_masses \<Rightarrow>
     let prefactor = BH_prefactor C static_dielectric impurity_concentration in
     (case for_spins
             (\<lambda>spin. case BH_ir_rates d inverse_screening_length_sq prefactor
                             dos_effective_masses normalized_energies spin of
                        Inl e \<Rightarrow> Inl e
                      | Inr r \<Rightarrow> take_last4 r (ir_to_full_kpoint_mapping d))
             (self_spins self) Map.empty of
        Inl e \<Rightarrow> Inl e
      | Inr r \<Rightarrow> Inr (abstract_basic_scattering.extend self \<lparr>rates = r\<rparr>)))))))"

section \<open>Reading the claims\<close>

text \<open>The position on an axis of extent \<open>n\<close> that entry \<open>k\<close> of an index array selects.\<close>

definition ir_index :: "nat \<Rightarrow> int list \<Rightarrow> nat \<Rightarrow> nat" where
  "ir_index n idx k = the (norm_index n (idx ! k))"

text \<open>The velocity magnitude the two mechanisms compute at band \<open>b\<close> and k-point \<open>k\<close>, over
  a diagonal of \<open>m\<close> entries.\<close>

definition vel_norm :: "nat \<Rightarrow> npfloat arr4 \<Rightarrow> nat \<Rightarrow> nat \<Rightarrow> npfloat" where
  "vel_norm m vp b k =
     fsqrt (np_sum (map (\<lambda>i. fmul (fsqrt (at4 vp b i i k)) (fsqrt (at4 vp b i i k))) [0..<m]))"

text \<open>The specification's velocity magnitude: the Euclidean norm over the three spatial
  components of the square-rooted diagonal of the velocity outer-product tensor.\<close>

definition spec_velocity_norm :: "npfloat arr4 \<Rightarrow> nat \<Rightarrow> nat \<Rightarrow> npfloat" where
  "spec_velocity_norm vp b k =
     fsqrt (fadd (fadd (fmul (fsqrt (at4 vp b 0 0 k)) (fsqrt (at4 vp b 0 0 k)))
                       (fmul (fsqrt (at4 vp b 1 1 k)) (fsqrt (at4 vp b 1 1 k))))
                 (fmul (fsqrt (at4 vp b 2 2 k)) (fsqrt (at4 vp b 2 2 k))))"

subsection \<open>A small dataset\<close>

text \<open>One spin, two bands, three k-points of which the first two are equivalent; the
  valence band has its maximum 0 and the conduction band its minimum 1 at the first k-point.\<close>

definition ex_data :: amset_data where
  "ex_data =
     \<lparr>spins = [Up],
      energies = (\<lambda>s. \<lparr>shape2 = (2, 3),
                         at2 = (\<lambda>b k. if b = 0 then (if k = 2 then Fin (- 1 / 2) else Fin 0)
                                      else (if k = 2 then Fin (12 / 10) else Fin 1))\<rparr>),
      velocities_product = (\<lambda>s. \<lparr>shape4 = (2, 3, 3, 3),
                         at4 = (\<lambda>b i j k. if i = 0 \<and> j = 0 \<and> k = 2 then Fin 4 else Fin 0)\<rparr>),
      effective_mass = (\<lambda>s. \<lparr>shape4 = (2, 3, 3, 3),
                         at4 = (\<lambda>b i j k. if i \<noteq> j then Fin 0
                                        else if i = 0 then Fin 1 else if i = 1 then Fin (- 2) else Fin 4)\<rparr>),
      c_factor = (\<lambda>s. \<lparr>shape2 = (2, 3), at2 = (\<lambda>b k. Fin 1)\<rparr>),
      fermi_levels = \<lparr>shape2 = (2, 1), at2 = (\<lambda>n t. Fin (1 / 2))\<rparr>,
      doping = [Fin (- 1), Fin 1],
      temperatures = [Fin 300],
      electron_conc = \<lparr>shape2 = (2, 1), at2 = (\<lambda>n t. if n = 0 then Fin 1 else Fin 0)\<rparr>,
      hole_conc = \<lparr>shape2 = (2, 1), at2 = (\<lambda>n t. if n = 0 then Fin 0 else Fin 1)\<rparr>,
      ir_kpoints_idx = [0, 2],
      ir_to_full_kpoint_mapping = [0, 0, 1],
      is_metal = False,
      vb_idx = (\<lambda>s. 0),
      intrinsic_fermi_level = Fin (1 / 2)\<rparr>"

definition ex_properties :: "string \<rightharpoonup> npfloat" where
  "ex_properties =
     [''constant_relaxation_time'' \<mapsto> Fin 2, ''mean_free_path'' \<mapsto> Fin 10,
      ''acceptor_charge'' \<mapsto> Fin 1, ''donor_charge'' \<mapsto> Fin 1,
      ''static_dielectric'' \<mapsto> Fin 10, ''unused'' \<mapsto> Fin 7]"

definition ex_constants :: constants where
  "ex_constants = \<lparr>Second = Fin 4, nm_to_bohr = Fin 20\<rparr>"


section \<open>Auxiliary lemmas\<close>

lemma for_spins_result:
  "for_spins f ss acc = Inr m \<Longrightarrow>
     (\<forall>s. s \<in> set ss \<longrightarrow> (\<exists>v. f s = Inr v \<and> m s = Some v)) \<and>
     (\<forall>s. s \<notin> set ss \<longrightarrow> m s = acc s)"
proof (induction ss arbitrary: acc)
  case Nil
  then show ?case by simp
next
  case (Cons a ss)
  from Cons.prems obtain v where fa: "f a = Inr v" and rest: "for_spins f ss (acc(a \<mapsto> v)) = Inr m"
    by (auto split: sum.splits)
  from Cons.IH [OF rest] fa show ?case by (auto split: if_splits)
qed

lemma for_spins_total:
  "(\<And>s. s \<in> set ss \<Longrightarrow> \<exists>v. f s = Inr v) \<Longrightarrow> \<exists>m. for_spins f ss acc = Inr m"
proof (induction ss arbitrary: acc)
  case Nil
  then show ?case by simp
next
  case (Cons a ss)
  then obtain v where fa: "f a = Inr v" by (meson list.set_intros(1))
  with Cons show ?case by simp
qed

lemma for_spins_fail:
  "s \<in> set ss \<Longrightarrow> f s = Inl e \<Longrightarrow> \<exists>e'. for_spins f ss acc = Inl e'"
proof (induction ss arbitrary: acc)
  case Nil
  then show ?case by simp
next
  case (Cons a ss)
  then show ?case by (cases "f a") auto
qed

lemma extract_properties_missing:
  "find (\<lambda>p. mp p = None) ps = Some k \<Longrightarrow> extract_properties mp ps acc = Inl (KeyError k)"
  by (induction ps arbitrary: acc) (auto split: option.splits if_splits)

lemma extract_properties_present:
  "find (\<lambda>p. mp p = None) ps = None \<Longrightarrow>
     extract_properties mp ps acc = Inr (acc ++ (mp |` set ps))"
proof (induction ps arbitrary: acc)
  case Nil
  then show ?case by simp
next
  case (Cons p ps)
  then obtain v where v: "mp p = Some v" and rest: "find (\<lambda>p. mp p = None) ps = None"
    by (auto split: if_splits)
  have eq: "acc(p \<mapsto> v) ++ (mp |` set ps) = acc ++ (mp |` set (p # ps))"
    using v by (auto simp: map_add_def restrict_map_def fun_eq_iff split: option.splits)
  have "extract_properties mp (p # ps) acc = extract_properties mp ps (acc(p \<mapsto> v))"
    using v by simp
  also have "\<dots> = Inr (acc(p \<mapsto> v) ++ (mp |` set ps))"
    by (rule Cons.IH [OF rest])
  finally show ?case by (simp only: eq)
qed

lemma AbstractBasicScattering_init_missing:
  "find (\<lambda>p. mp p = None) req = Some k \<Longrightarrow> AbstractBasicScattering_init req mp d = Inl (KeyError k)"
  by (simp add: AbstractBasicScattering_init_def extract_properties_missing)

lemma AbstractBasicScattering_init_present:
  "find (\<lambda>p. mp p = None) req = None \<Longrightarrow>
   AbstractBasicScattering_init req mp d =
     Inr \<lparr>self_properties = mp |` set req,
          self_doping = doping d,
          self_temperatures = temperatures d,
          self_nbands = foldl (\<lambda>m s. m(s \<mapsto> fst (shape2 (energies d s)))) Map.empty (spins d),
          self_spins = spins d\<rparr>"
  by (simp add: AbstractBasicScattering_init_def extract_properties_present)

lemma CRT_init_success:
  assumes tau: "mp ''constant_relaxation_time'' = Some tau" and nz: "tau \<noteq> Fin 0"
  shows "\<exists>self. ConstantRelaxationTime_init mp d = Inr self \<and>
           (\<forall>s. rates self s =
              (if s \<in> set (spins d) then Some (np_full (shape_concat (shape2 (fermi_levels d)) (shape2 (energies d s))) (fdiv (Fin 1) tau)) else None))"
proof -
  let ?f = "\<lambda>s. Inr (shape_concat (shape2 (fermi_levels d)) (shape2 (energies d s))) :: error + (nat \<times> nat \<times> nat \<times> nat)"
  have "\<exists>m. for_spins ?f (spins d) Map.empty = Inr m"
    by (rule for_spins_total) (rule exI, rule refl)
  then obtain shape where sh: "for_spins ?f (spins d) Map.empty = Inr shape" ..
  have shape: "\<And>s. shape s = (if s \<in> set (spins d) then Some (shape_concat (shape2 (fermi_levels d)) (shape2 (energies d s))) else None)"
    using for_spins_result [OF sh] by auto
  let ?g = "\<lambda>s. case shape s of None \<Rightarrow> Inl (KeyError ''spin'')
                  | Some sh \<Rightarrow> Inr (np_full sh (fdiv (Fin 1) tau))"
  have "\<exists>m. for_spins ?g (spins d) Map.empty = Inr m"
    by (rule for_spins_total) (simp add: shape)
  then obtain r where r: "for_spins ?g (spins d) Map.empty = Inr r" ..
  have rr: "\<And>s. r s = (if s \<in> set (spins d) then Some (np_full (shape_concat (shape2 (fermi_levels d)) (shape2 (energies d s))) (fdiv (Fin 1) tau)) else None)"
    using for_spins_result [OF r] by (auto simp: shape)
  have fnd: "find (\<lambda>p. mp p = None) CRT_required_properties = None"
    using tau by (simp add: CRT_required_properties_def)
  have lk: "(mp |` set CRT_required_properties) ''constant_relaxation_time'' = Some tau"
    using tau by (simp add: CRT_required_properties_def)
  show ?thesis
    using sh r rr nz
    by (simp add: ConstantRelaxationTime_init_def AbstractBasicScattering_init_present [OF fnd]
        prop_lookup_def lk py_div_def abstract_basic_scattering.extend_def)
qed

lemma fadd_zero_left [simp]: "fadd (Fin 0) x = x"
  by (cases x) simp_all

lemma fmul_one_left [simp]: "fmul (Fin 1) x = x"
  by (cases x) (simp_all add: inf_of_sign_def)

lemma vel_norm_3: "vel_norm 3 vp b k = spec_velocity_norm vp b k"
  by (simp add: vel_norm_def spec_velocity_norm_def np_sum_def eval_nat_numeral upt_rec [of 0])

lemma clamp_velocity_fmax: "clamp_velocity v = fmax v (Fin (5 / 1000))"
  by (cases v) (simp_all add: clamp_velocity_def fmax_def)

lemma take_last4_ok:
  "shape4 a = (s0, s1, s2, s3) \<Longrightarrow> indices_ok s3 idx \<Longrightarrow>
   take_last4 a idx = Inr \<lparr>shape4 = (s0, s1, s2, length idx),
                            at4 = (\<lambda>n t b k. at4 a n t b (ir_index s3 idx k))\<rparr>"
  by (simp add: take_last4_def ir_index_def)

lemma take_last2_ok:
  "shape2 a = (s0, s1) \<Longrightarrow> indices_ok s1 idx \<Longrightarrow>
   take_last2 a idx = Inr \<lparr>shape2 = (s0, length idx),
                            at2 = (\<lambda>b k. at2 a b (ir_index s1 idx k))\<rparr>"
  by (simp add: take_last2_def ir_index_def)

lemma MFP_ir_rates_ok:
  assumes "shape4 (velocities_product d s) = (nb, n1, n2, nk)"
      and "indices_ok nk (ir_kpoints_idx d)"
  shows "MFP_ir_rates C mfp d s =
           Inr \<lparr>shape4 = (length (doping d), length (temperatures d), nb, length (ir_kpoints_idx d)),
                at4 = (\<lambda>n t b k. fdiv (fmul (clamp_velocity
                          (vel_norm (min n1 n2) (velocities_product d s) b
                             (ir_index nk (ir_kpoints_idx d) k))) (Second C)) mfp)\<rparr>"
  by (simp add: MFP_ir_rates_def take_last4_ok [OF assms] np_diagonal_def map3_arr_def
      norm_axis2_def map2_arr_def np_tile_def map4_arr_def vel_norm_def Let_def)

lemma MFP_init_ok:
  assumes l: "mp ''mean_free_path'' = Some l"
      and sh: "\<And>s. s \<in> set (spins d) \<Longrightarrow> shape4 (velocities_product d s) = (nb s, n1 s, n2 s, nk)"
      and ir: "indices_ok nk (ir_kpoints_idx d)"
      and full: "indices_ok (length (ir_kpoints_idx d)) (ir_to_full_kpoint_mapping d)"
  shows "\<exists>self. MeanFreePathScattering_init C mp d = Inr self \<and>
           (\<forall>s. rates self s =
              (if s \<in> set (spins d) then
                 Some \<lparr>shape4 = (length (doping d), length (temperatures d), nb s,
                                length (ir_to_full_kpoint_mapping d)),
                       at4 = (\<lambda>n t b k. fdiv (fmul (clamp_velocity
                          (vel_norm (min (n1 s) (n2 s)) (velocities_product d s) b
                             (ir_index nk (ir_kpoints_idx d)
                                (ir_index (length (ir_kpoints_idx d)) (ir_to_full_kpoint_mapping d) k))))
                          (Second C)) (fmul l (nm_to_bohr C)))\<rparr>
               else None))"
proof -
  let ?mfp = "fmul l (nm_to_bohr C)"
  let ?f = "\<lambda>spin. case MFP_ir_rates C ?mfp d spin of
                       Inl e \<Rightarrow> Inl e
                     | Inr r \<Rightarrow> take_last4 r (ir_to_full_kpoint_mapping d)"
  have f: "?f s = Inr \<lparr>shape4 = (length (doping d), length (temperatures d), nb s,
                                length (ir_to_full_kpoint_mapping d)),
                       at4 = (\<lambda>n t b k. fdiv (fmul (clamp_velocity
                          (vel_norm (min (n1 s) (n2 s)) (velocities_product d s) b
                             (ir_index nk (ir_kpoints_idx d)
                                (ir_index (length (ir_kpoints_idx d)) (ir_to_full_kpoint_mapping d) k))))
                          (Second C)) ?mfp)\<rparr>"
    if "s \<in> set (spins d)" for s
    using full by (simp add: MFP_ir_rates_ok [OF sh [OF that] ir] take_last4_ok)
  have "\<exists>m. for_spins ?f (spins d) Map.empty = Inr m"
    by (rule for_spins_total) (simp add: f)
  then obtain r where r: "for_spins ?f (spins d) Map.empty = Inr r" ..
  have rr: "r s = (if s \<in> set (spins d) then
                 Some \<lparr>shape4 = (length (doping d), length (temperatures d), nb s,
                                length (ir_to_full_kpoint_mapping d)),
                       at4 = (\<lambda>n t b k. fdiv (fmul (clamp_velocity
                          (vel_norm (min (n1 s) (n2 s)) (velocities_product d s) b
                             (ir_index nk (ir_kpoints_idx d)
                                (ir_index (length (ir_kpoints_idx d)) (ir_to_full_kpoint_mapping d) k))))
                          (Second C)) ?mfp)\<rparr>
               else None)" for s
    using for_spins_result [OF r] f by (cases "s \<in> set (spins d)") auto
  have fnd: "find (\<lambda>p. mp p = None) MFP_required_properties = None"
    using l by (simp add: MFP_required_properties_def)
  have lk: "(mp |` set MFP_required_properties) ''mean_free_path'' = Some l"
    using l by (simp add: MFP_required_properties_def)
  show ?thesis
    using r rr
    by (simp add: MeanFreePathScattering_init_def AbstractBasicScattering_init_present [OF fnd]
        prop_lookup_def lk abstract_basic_scattering.extend_def)
qed

lemma spec_velocity_norm_finite:
  assumes "\<forall>i<3. \<exists>x. at4 vp b i i k = Fin x \<and> 0 \<le> x"
  shows "\<exists>v. spec_velocity_norm vp b k = Fin v \<and> 0 \<le> v"
proof -
  have "(0::nat) < 3" "(1::nat) < 3" "(2::nat) < 3" by simp_all
  with assms obtain x0 x1 x2 where
    x: "at4 vp b 0 0 k = Fin x0" "0 \<le> x0" "at4 vp b 1 1 k = Fin x1" "0 \<le> x1"
       "at4 vp b 2 2 k = Fin x2" "0 \<le> x2"
    by metis
  then show ?thesis by (simp add: spec_velocity_norm_def)
qed

lemma MFP_rate_nonneg:
  assumes "0 \<le> v" "0 < S" "0 < lr" "0 < c"
  shows "nonneg (fdiv (fmul (fmax (Fin v) (Fin (5 / 1000))) (Fin S)) (fmul (Fin lr) (Fin c)))"
  using assms by (simp add: fmax_def)

lemma ex_indices:
  "indices_ok 3 (ir_kpoints_idx ex_data)"
  "indices_ok (length (ir_kpoints_idx ex_data)) (ir_to_full_kpoint_mapping ex_data)"
  "ir_index 3 (ir_kpoints_idx ex_data) 0 = 0"
  "ir_index 3 (ir_kpoints_idx ex_data) (Suc 0) = 2"
  "ir_index 2 (ir_to_full_kpoint_mapping ex_data) 0 = 0"
  "ir_index 2 (ir_to_full_kpoint_mapping ex_data) (Suc 0) = 0"
  "ir_index 2 (ir_to_full_kpoint_mapping ex_data) 2 = 1"
  by (simp_all add: ex_data_def indices_ok_def norm_index_def ir_index_def)

lemma ex_velocity:
  "spec_velocity_norm (velocities_product ex_data Up) b 0 = Fin 0"
  "spec_velocity_norm (velocities_product ex_data Up) b 2 = Fin 2"
  by (simp_all add: ex_data_def spec_velocity_norm_def)





section \<open>The claims\<close>

text \<open>
  Claim C7. For ConstantRelaxationTime constructed with relaxation time \<open>tau\<close> (not zero, see
  C10), construction succeeds and, for every spin of the dataset, \<open>rates[spin]\<close> has the
  shape \<open>fermi_levels.shape + energies[spin].shape\<close>, that is (ndoping, ntemperatures,
  nbands, nkpoints-full), and every entry is \<open>1 / tau\<close>. The rates are \<^const>\<open>np_full\<close> of
  that shape and value: they depend on the dataset through the two shapes and the list of
  spins only, and on no tensor value.
\<close>

theorem C7_constant_relaxation_time:
  assumes "materials_properties ''constant_relaxation_time'' = Some tau"
      and "tau \<noteq> Fin 0"
  shows "\<exists>self. ConstantRelaxationTime_init materials_properties d = Inr self \<and>
           rates self =
             (\<lambda>s. if s \<in> set (spins d)
                  then Some (np_full (shape_concat (shape2 (fermi_levels d)) (shape2 (energies d s)))
                               (fdiv (Fin 1) tau))
                  else None) \<and>
           (\<forall>s \<in> set (spins d). \<exists>r. rates self s = Some r \<and>
              shape4 r = shape_concat (shape2 (fermi_levels d)) (shape2 (energies d s)) \<and>
              (\<forall>n t b k. at4 r n t b k = fdiv (Fin 1) tau))"
proof -
  from CRT_init_success [of materials_properties tau d, OF assms] obtain self where
    ok: "ConstantRelaxationTime_init materials_properties d = Inr self" and
    r: "\<And>s. rates self s =
          (if s \<in> set (spins d)
           then Some (np_full (shape_concat (shape2 (fermi_levels d)) (shape2 (energies d s)))
                        (fdiv (Fin 1) tau))
           else None)"
    by blast
  have "rates self =
             (\<lambda>s. if s \<in> set (spins d)
                  then Some (np_full (shape_concat (shape2 (fermi_levels d)) (shape2 (energies d s)))
                               (fdiv (Fin 1) tau))
                  else None)"
    by (rule ext) (rule r)
  moreover have "\<forall>s \<in> set (spins d). \<exists>r. rates self s = Some r \<and>
              shape4 r = shape_concat (shape2 (fermi_levels d)) (shape2 (energies d s)) \<and>
              (\<forall>n t b k. at4 r n t b k = fdiv (Fin 1) tau)"
    by (simp add: r np_full_def)
  ultimately show ?thesis using ok by blast
qed

theorem C7_witness:
  "ex_properties ''constant_relaxation_time'' = Some (Fin 2) \<and> Fin 2 \<noteq> Fin 0 \<and>
   (\<exists>self. ConstantRelaxationTime_init ex_properties ex_data = Inr self \<and>
      (\<exists>r. rates self Up = Some r \<and> shape4 r = (2, 1, 2, 3) \<and> at4 r 1 0 1 2 = Fin (1 / 2)))"
proof -
  have h1: "ex_properties ''constant_relaxation_time'' = Some (Fin 2)"
    by (simp add: ex_properties_def)
  have h2: "Fin 2 \<noteq> Fin 0" by simp
  from C7_constant_relaxation_time [of ex_properties "Fin 2" ex_data, OF h1 h2] obtain self where
    ok: "ConstantRelaxationTime_init ex_properties ex_data = Inr self" and
    r: "\<forall>s \<in> set (spins ex_data). \<exists>r. rates self s = Some r \<and>
          shape4 r = shape_concat (shape2 (fermi_levels ex_data)) (shape2 (energies ex_data s)) \<and>
          (\<forall>n t b k. at4 r n t b k = fdiv (Fin 1) (Fin 2))"
    by blast
  have "Up \<in> set (spins ex_data)" by (simp add: ex_data_def)
  with r obtain r0 where "rates self Up = Some r0"
     "shape4 r0 = shape_concat (shape2 (fermi_levels ex_data)) (shape2 (energies ex_data Up))"
     "\<forall>n t b k. at4 r0 n t b k = fdiv (Fin 1) (Fin 2)" by blast
  then have "rates self Up = Some r0 \<and> shape4 r0 = (2, 1, 2, 3) \<and> at4 r0 1 0 1 2 = Fin (1 / 2)"
    by (simp add: shape_concat_def ex_data_def)
  with ok h1 h2 show ?thesis by blast
qed



text \<open>
  Claim C2. With the key present and the k-point indices in range, MeanFreePathScattering is
  constructed and, for every spin, doping index, temperature index, band and full k-point,
  the rate is \<open>max(v, 0.005) * Second / (mean_free_path * nm_to_bohr)\<close>, where \<open>v\<close> is the
  Euclidean norm of the square-rooted diagonal of the velocity outer-product tensor at the
  band and at the irreducible representative of the k-point. So an entry whose \<open>v\<close> is
  below the floor is \<open>0.005 * Second / mfp\<close>, the rate is the same in every (doping,
  temperature) slice, and it is non-negative when the mean free path and the two unit
  constants are positive and the diagonal holds squared velocities (finite and not
  negative).
\<close>

theorem C2_mean_free_path:
  assumes l: "materials_properties ''mean_free_path'' = Some l"
      and sh: "\<forall>s \<in> set (spins d). shape4 (velocities_product d s) = (nb s, 3, 3, nk)"
      and ir: "indices_ok nk (ir_kpoints_idx d)"
      and full: "indices_ok (length (ir_kpoints_idx d)) (ir_to_full_kpoint_mapping d)"
  shows "\<exists>self. MeanFreePathScattering_init C materials_properties d = Inr self \<and>
          (\<forall>s \<in> set (spins d). \<exists>r. rates self s = Some r \<and>
             shape4 r = (length (doping d), length (temperatures d), nb s,
                         length (ir_to_full_kpoint_mapping d)) \<and>
             (\<forall>n t b k. n < length (doping d) \<longrightarrow> t < length (temperatures d) \<longrightarrow> b < nb s \<longrightarrow>
                        k < length (ir_to_full_kpoint_mapping d) \<longrightarrow>
                (let v = spec_velocity_norm (velocities_product d s) b
                           (ir_index nk (ir_kpoints_idx d)
                              (ir_index (length (ir_kpoints_idx d)) (ir_to_full_kpoint_mapping d) k))
                 in at4 r n t b k =
                      fdiv (fmul (fmax v (Fin (5 / 1000))) (Second C)) (fmul l (nm_to_bohr C)) \<and>
                    (fless v (Fin (5 / 1000)) \<longrightarrow>
                       at4 r n t b k = fdiv (fmul (Fin (5 / 1000)) (Second C)) (fmul l (nm_to_bohr C))) \<and>
                    (\<forall>n' t'. n' < length (doping d) \<longrightarrow> t' < length (temperatures d) \<longrightarrow>
                       at4 r n' t' b k = at4 r n t b k) \<and>
                    ((\<exists>lr S c. l = Fin lr \<and> 0 < lr \<and> Second C = Fin S \<and> 0 < S \<and>
                               nm_to_bohr C = Fin c \<and> 0 < c) \<and>
                     (\<forall>i<3. \<exists>x. at4 (velocities_product d s) b i i
                                   (ir_index nk (ir_kpoints_idx d)
                                      (ir_index (length (ir_kpoints_idx d))
                                         (ir_to_full_kpoint_mapping d) k)) = Fin x \<and> 0 \<le> x)
                       \<longrightarrow> nonneg (at4 r n t b k)))))"
proof -
  have sh': "\<And>s. s \<in> set (spins d) \<Longrightarrow>
               shape4 (velocities_product d s) = (nb s, (\<lambda>s. 3) s, (\<lambda>s. 3) s, nk)"
    using sh by simp
  from MFP_init_ok [of materials_properties l d nb "\<lambda>s. 3" "\<lambda>s. 3" nk C, OF l sh' ir full]
  obtain self where
    ok: "MeanFreePathScattering_init C materials_properties d = Inr self" and
    r: "\<And>s. rates self s =
              (if s \<in> set (spins d) then
                 Some \<lparr>shape4 = (length (doping d), length (temperatures d), nb s,
                                length (ir_to_full_kpoint_mapping d)),
                       at4 = (\<lambda>n t b k. fdiv (fmul (clamp_velocity
                          (vel_norm (min 3 3) (velocities_product d s) b
                             (ir_index nk (ir_kpoints_idx d)
                                (ir_index (length (ir_kpoints_idx d)) (ir_to_full_kpoint_mapping d) k))))
                          (Second C)) (fmul l (nm_to_bohr C)))\<rparr>
               else None)"
    by blast
  have "\<exists>r. rates self s = Some r \<and>
             shape4 r = (length (doping d), length (temperatures d), nb s,
                         length (ir_to_full_kpoint_mapping d)) \<and>
             (\<forall>n t b k. n < length (doping d) \<longrightarrow> t < length (temperatures d) \<longrightarrow> b < nb s \<longrightarrow>
                        k < length (ir_to_full_kpoint_mapping d) \<longrightarrow>
                (let v = spec_velocity_norm (velocities_product d s) b
                           (ir_index nk (ir_kpoints_idx d)
                              (ir_index (length (ir_kpoints_idx d)) (ir_to_full_kpoint_mapping d) k))
                 in at4 r n t b k =
                      fdiv (fmul (fmax v (Fin (5 / 1000))) (Second C)) (fmul l (nm_to_bohr C)) \<and>
                    (fless v (Fin (5 / 1000)) \<longrightarrow>
                       at4 r n t b k = fdiv (fmul (Fin (5 / 1000)) (Second C)) (fmul l (nm_to_bohr C))) \<and>
                    (\<forall>n' t'. n' < length (doping d) \<longrightarrow> t' < length (temperatures d) \<longrightarrow>
                       at4 r n' t' b k = at4 r n t b k) \<and>
                    ((\<exists>lr S c. l = Fin lr \<and> 0 < lr \<and> Second C = Fin S \<and> 0 < S \<and>
                               nm_to_bohr C = Fin c \<and> 0 < c) \<and>
                     (\<forall>i<3. \<exists>x. at4 (velocities_product d s) b i i
                                   (ir_index nk (ir_kpoints_idx d)
                                      (ir_index (length (ir_kpoints_idx d))
                                         (ir_to_full_kpoint_mapping d) k)) = Fin x \<and> 0 \<le> x)
                       \<longrightarrow> nonneg (at4 r n t b k))))"
    if s: "s \<in> set (spins d)" for s
  proof -
    let ?kk = "\<lambda>k. ir_index nk (ir_kpoints_idx d)
                      (ir_index (length (ir_kpoints_idx d)) (ir_to_full_kpoint_mapping d) k)"
    let ?v = "\<lambda>b k. spec_velocity_norm (velocities_product d s) b (?kk k)"
    let ?rate = "\<lambda>b k. fdiv (fmul (fmax (?v b k) (Fin (5 / 1000))) (Second C)) (fmul l (nm_to_bohr C))"
    let ?r = "\<lparr>shape4 = (length (doping d), length (temperatures d), nb s,
                                length (ir_to_full_kpoint_mapping d)),
               at4 = (\<lambda>n t b k. ?rate b k)\<rparr>"
    have rs: "rates self s = Some ?r"
      using s by (simp add: r vel_norm_3 clamp_velocity_fmax)
    have low: "fless (?v b k) (Fin (5 / 1000)) \<Longrightarrow>
                 ?rate b k = fdiv (fmul (Fin (5 / 1000)) (Second C)) (fmul l (nm_to_bohr C))" for b k
      by (cases "?v b k") (simp_all add: fmax_def)
    have nn: "nonneg (?rate b k)"
      if c: "\<exists>lr S c. l = Fin lr \<and> 0 < lr \<and> Second C = Fin S \<and> 0 < S \<and> nm_to_bohr C = Fin c \<and> 0 < c"
      and v: "\<forall>i<3. \<exists>x. at4 (velocities_product d s) b i i (?kk k) = Fin x \<and> 0 \<le> x" for b k
    proof -
      from spec_velocity_norm_finite [OF v] obtain v where v: "?v b k = Fin v" "0 \<le> v" by blast
      from c obtain lr S c where "l = Fin lr" "0 < lr" "Second C = Fin S" "0 < S"
        "nm_to_bohr C = Fin c" "0 < c" by blast
      with v MFP_rate_nonneg [of v S lr c] show ?thesis by simp
    qed
    show ?thesis
      unfolding rs Let_def using low nn by simp
  qed
  with ok show ?thesis by blast
qed

theorem C2_witness:
  "ex_properties ''mean_free_path'' = Some (Fin 10) \<and>
   shape4 (velocities_product ex_data Up) = (2, 3, 3, 3) \<and>
   indices_ok 3 (ir_kpoints_idx ex_data) \<and>
   indices_ok (length (ir_kpoints_idx ex_data)) (ir_to_full_kpoint_mapping ex_data) \<and>
   (\<exists>self. MeanFreePathScattering_init ex_constants ex_properties ex_data = Inr self \<and>
      (\<exists>r. rates self Up = Some r \<and> shape4 r = (2, 1, 2, 3) \<and>
           at4 r 0 0 0 0 = Fin (1 / 10000) \<and> at4 r 1 0 1 2 = Fin (1 / 25) \<and>
           nonneg (at4 r 1 0 1 2)))"
proof -
  have h1: "ex_properties ''mean_free_path'' = Some (Fin 10)"
    by (simp add: ex_properties_def)
  have h2: "\<forall>s \<in> set (spins ex_data). shape4 (velocities_product ex_data s) = ((\<lambda>s. 2) s, 3, 3, 3)"
    by (simp add: ex_data_def)
  note h3 = ex_indices(1) and h4 = ex_indices(2)
  from C2_mean_free_path [of ex_properties "Fin 10" ex_data "\<lambda>s. 2" 3 ex_constants, OF h1 h2 h3 h4]
  obtain self where
    ok: "MeanFreePathScattering_init ex_constants ex_properties ex_data = Inr self" and
    r: "\<forall>s \<in> set (spins ex_data). \<exists>r. rates self s = Some r \<and>
             shape4 r = (length (doping ex_data), length (temperatures ex_data), 2,
                         length (ir_to_full_kpoint_mapping ex_data)) \<and>
             (\<forall>n t b k. n < length (doping ex_data) \<longrightarrow> t < length (temperatures ex_data) \<longrightarrow> b < 2 \<longrightarrow>
                        k < length (ir_to_full_kpoint_mapping ex_data) \<longrightarrow>
                (let v = spec_velocity_norm (velocities_product ex_data s) b
                           (ir_index 3 (ir_kpoints_idx ex_data)
                              (ir_index (length (ir_kpoints_idx ex_data)) (ir_to_full_kpoint_mapping ex_data) k))
                 in at4 r n t b k =
                      fdiv (fmul (fmax v (Fin (5 / 1000))) (Second ex_constants)) (fmul (Fin 10) (nm_to_bohr ex_constants)) \<and>
                    (fless v (Fin (5 / 1000)) \<longrightarrow>
                       at4 r n t b k = fdiv (fmul (Fin (5 / 1000)) (Second ex_constants)) (fmul (Fin 10) (nm_to_bohr ex_constants))) \<and>
                    (\<forall>n' t'. n' < length (doping ex_data) \<longrightarrow> t' < length (temperatures ex_data) \<longrightarrow>
                       at4 r n' t' b k = at4 r n t b k) \<and>
                    ((\<exists>lr S c. Fin 10 = Fin lr \<and> 0 < lr \<and> Second ex_constants = Fin S \<and> 0 < S \<and>
                               nm_to_bohr ex_constants = Fin c \<and> 0 < c) \<and>
                     (\<forall>i<3. \<exists>x. at4 (velocities_product ex_data s) b i i
                                   (ir_index 3 (ir_kpoints_idx ex_data)
                                      (ir_index (length (ir_kpoints_idx ex_data))
                                         (ir_to_full_kpoint_mapping ex_data) k)) = Fin x \<and> 0 \<le> x)
                       \<longrightarrow> nonneg (at4 r n t b k))))"
    by blast
  have up: "Up \<in> set (spins ex_data)" by (simp add: ex_data_def)
  from bspec [OF r up] obtain r0 where
    r0: "rates self Up = Some r0"
        "shape4 r0 = (length (doping ex_data), length (temperatures ex_data), 2,
                      length (ir_to_full_kpoint_mapping ex_data))" and
    e: "\<And>n t b k. n < length (doping ex_data) \<Longrightarrow> t < length (temperatures ex_data) \<Longrightarrow> b < 2 \<Longrightarrow>
                        k < length (ir_to_full_kpoint_mapping ex_data) \<Longrightarrow>
           at4 r0 n t b k =
              fdiv (fmul (fmax (spec_velocity_norm (velocities_product ex_data Up) b
                           (ir_index 3 (ir_kpoints_idx ex_data)
                              (ir_index (length (ir_kpoints_idx ex_data)) (ir_to_full_kpoint_mapping ex_data) k)))
                         (Fin (5 / 1000))) (Second ex_constants)) (fmul (Fin 10) (nm_to_bohr ex_constants))"
    unfolding Let_def by blast
  have len: "length (doping ex_data) = 2" "length (temperatures ex_data) = 1"
    "length (ir_to_full_kpoint_mapping ex_data) = 3" "length (ir_kpoints_idx ex_data) = 2"
    by (simp_all add: ex_data_def)
  have a: "at4 r0 0 0 0 0 = Fin (1 / 10000)"
    using e [of 0 0 0 0] by (simp add: len ex_indices ex_velocity fmax_def ex_constants_def)
  have b: "at4 r0 1 0 1 2 = Fin (1 / 25)"
    using e [of 1 0 1 2] by (simp add: len ex_indices ex_velocity fmax_def ex_constants_def)
  have "shape4 (velocities_product ex_data Up) = (2, 3, 3, 3)" by (simp add: ex_data_def)
  moreover have "\<exists>r. rates self Up = Some r \<and> shape4 r = (2, 1, 2, 3) \<and>
           at4 r 0 0 0 0 = Fin (1 / 10000) \<and> at4 r 1 0 1 2 = Fin (1 / 25) \<and>
           nonneg (at4 r 1 0 1 2)"
    using r0 a b by (simp add: len)
  ultimately show ?thesis using h1 h3 h4 ok by blast
qed



end
